theory Spec2Isabelle
  imports Complex_Main "HOL-Library.Sublist"
begin

section \<open>Values of the host language\<close>

text \<open>
  The filter engine (\<^verbatim>\<open>utils/filterEngine.ts\<close>) is written over \<^verbatim>\<open>any\<close>-typed
  values: the value found in a record, and the payload of a condition after its cast.
  The data the engine is given (records, payloads, the entries of the path map) are
  JSON-shaped values, \<open>jsval\<close>: they hold no functions, accessors, symbols, big
  integers or dates, and two distinct objects are never the same reference.
  A number is \<open>NaN\<close>, an infinity, or a finite number given by its exact rational value:
  the engine only compares numbers, it never computes with them.

  A property read can leave the data: every value inherits members from the built-in
  prototypes, so the name \<^verbatim>\<open>constructor\<close> read from a record, a string or the path map
  gives a built-in function. Such a built-in object is a \<open>Host\<close> value, opaque to the
  model, and \<open>jsany\<close> is a value of either kind.

  The faults the engine's steps can raise are \<^verbatim>\<open>TypeError\<close>s (reading a property of
  \<^verbatim>\<open>null\<close> or \<^verbatim>\<open>undefined\<close>, calling a method that is missing, converting an object
  that has no usable \<^verbatim>\<open>toString\<close>); a function that can raise returns \<open>error + 'a\<close>.
\<close>

datatype error = TypeError

datatype jsnum = NaN | NegInfinity | Fin rat | PosInfinity

datatype jsval =
    JUndefined
  | JNull
  | JBool bool
  | JNum jsnum
  | JStr string
  | JArr "jsval list"
  | JObj "(string \<times> jsval) list"

datatype jsany = Data jsval | Host string

text \<open>The preferred type of a conversion to a primitive.\<close>

datatype hint = HintDefault | HintNumber | HintString

text \<open>
  What the engine takes from the language runtime and cannot be read off its own source:
  the case mapping and trimming of strings, the conversions between numbers and strings,
  the parser behind \<^verbatim>\<open>new Date(string)\<close> (a time value in milliseconds, or \<open>NaN\<close>), the
  local time zone adjustment \<open>LocalTZA(t, isUTC)\<close> of the language standard, what a
  value inherits under a name that is not one of its own properties (for a built-in
  object: what any of its properties holds; the read can raise, since a member can be an
  accessor), and the primitive a built-in object converts to.
  Every function of the model takes the runtime as its first argument, and the theorems
  hold for every runtime unless they say otherwise.
\<close>

record runtime =
  toLowerCase :: "string \<Rightarrow> string"
  trim :: "string \<Rightarrow> string"
  NumberToString :: "rat \<Rightarrow> string"
  StringToNumber :: "string \<Rightarrow> jsnum"
  DateParse :: "string \<Rightarrow> jsnum"
  LocalTZA :: "int \<Rightarrow> bool \<Rightarrow> int"
  inherited :: "jsany \<Rightarrow> string \<Rightarrow> error + jsany"
  HostToPrimitive :: "string \<Rightarrow> hint \<Rightarrow> error + jsval"

text \<open>Sequencing of steps that can raise: the first fault ends the computation.\<close>

fun and_then :: "error + 'a \<Rightarrow> ('a \<Rightarrow> error + 'b) \<Rightarrow> error + 'b" where
  "and_then (Inl e) f = Inl e"
| "and_then (Inr x) f = f x"

fun sequence_js :: "(error + 'a) list \<Rightarrow> error + 'a list" where
  "sequence_js [] = Inr []"
| "sequence_js (r # rs) =
     and_then r (\<lambda>x. and_then (sequence_js rs) (\<lambda>xs. Inr (x # xs)))"

fun nullish :: "jsany \<Rightarrow> bool" where
  "nullish (Data JUndefined) = True"
| "nullish (Data JNull) = True"
| "nullish _ = False"

fun is_primitive :: "jsval \<Rightarrow> bool" where
  "is_primitive (JArr xs) = False"
| "is_primitive (JObj kvs) = False"
| "is_primitive _ = True"

text \<open>\<^verbatim>\<open>Boolean(v)\<close>: the falsy values are \<^verbatim>\<open>undefined\<close>, \<^verbatim>\<open>null\<close>, \<^verbatim>\<open>false\<close>, zero, \<open>NaN\<close>
  and the empty string.\<close>

fun ToBoolean :: "jsany \<Rightarrow> bool" where
  "ToBoolean (Data JUndefined) = False"
| "ToBoolean (Data JNull) = False"
| "ToBoolean (Data (JBool b)) = b"
| "ToBoolean (Data (JNum NaN)) = False"
| "ToBoolean (Data (JNum (Fin r))) = (r \<noteq> 0)"
| "ToBoolean (Data (JNum _)) = True"
| "ToBoolean (Data (JStr s)) = (s \<noteq> [])"
| "ToBoolean (Data (JArr xs)) = True"
| "ToBoolean (Data (JObj kvs)) = True"
| "ToBoolean (Host h) = True"

fun join_comma :: "string list \<Rightarrow> string" where
  "join_comma [] = []"
| "join_comma [s] = s"
| "join_comma (s # t # ts) = s @ '','' @ join_comma (t # ts)"

text \<open>
  \<^verbatim>\<open>String(v)\<close> for a JSON value. An array joins the strings of its elements with
  commas, an absent element giving the empty string. An object is converted by its
  \<^verbatim>\<open>toString\<close> method: a plain object inherits the one that gives
  \<^verbatim>\<open>[object Object]\<close>; an object with a property of its own under that name has there
  a value that cannot be called, its \<^verbatim>\<open>valueOf\<close> (its own, not callable, or the
  inherited one, which returns the object) gives no primitive either, and the
  conversion raises.
\<close>

fun data_string :: "runtime \<Rightarrow> jsval \<Rightarrow> error + string" where
  "data_string rt JUndefined = Inr ''undefined''"
| "data_string rt JNull = Inr ''null''"
| "data_string rt (JBool b) = Inr (if b then ''true'' else ''false'')"
| "data_string rt (JNum NaN) = Inr ''NaN''"
| "data_string rt (JNum NegInfinity) = Inr ''-Infinity''"
| "data_string rt (JNum PosInfinity) = Inr ''Infinity''"
| "data_string rt (JNum (Fin r)) = Inr (NumberToString rt r)"
| "data_string rt (JStr s) = Inr s"
| "data_string rt (JArr xs) =
     and_then
       (sequence_js (map (\<lambda>x. if x = JUndefined \<or> x = JNull then Inr [] else data_string rt x) xs))
       (\<lambda>ss. Inr (join_comma ss))"
| "data_string rt (JObj kvs) =
     (if map_of kvs ''toString'' = None then Inr ''[object Object]'' else Inl TypeError)"

text \<open>\<^verbatim>\<open>Number(v)\<close> for a JSON value; arrays and objects convert through their string.\<close>

fun data_number :: "runtime \<Rightarrow> jsval \<Rightarrow> error + jsnum" where
  "data_number rt JUndefined = Inr NaN"
| "data_number rt JNull = Inr (Fin 0)"
| "data_number rt (JBool b) = Inr (if b then Fin 1 else Fin 0)"
| "data_number rt (JNum n) = Inr n"
| "data_number rt (JStr s) = Inr (StringToNumber rt s)"
| "data_number rt (JArr xs) =
     and_then (data_string rt (JArr xs)) (\<lambda>s. Inr (StringToNumber rt s))"
| "data_number rt (JObj kvs) =
     and_then (data_string rt (JObj kvs)) (\<lambda>s. Inr (StringToNumber rt s))"

text \<open>The primitive of a value. For JSON data the hint makes no difference; a built-in
  object converts as the runtime says, and a result that is no primitive is a fault.\<close>

fun ToPrimitive :: "runtime \<Rightarrow> hint \<Rightarrow> jsany \<Rightarrow> error + jsval" where
  "ToPrimitive rt h (Data (JArr xs)) = and_then (data_string rt (JArr xs)) (\<lambda>s. Inr (JStr s))"
| "ToPrimitive rt h (Data (JObj kvs)) = and_then (data_string rt (JObj kvs)) (\<lambda>s. Inr (JStr s))"
| "ToPrimitive rt h (Data v) = Inr v"
| "ToPrimitive rt h (Host b) =
     and_then (HostToPrimitive rt b h) (\<lambda>p. if is_primitive p then Inr p else Inl TypeError)"

definition ToString :: "runtime \<Rightarrow> jsany \<Rightarrow> error + string" where
  "ToString rt v = and_then (ToPrimitive rt HintString v) (data_string rt)"

definition ToNumber :: "runtime \<Rightarrow> jsany \<Rightarrow> error + jsnum" where
  "ToNumber rt v = and_then (ToPrimitive rt HintNumber v) (data_number rt)"

text \<open>The global \<^verbatim>\<open>isNaN(v)\<close> converts its argument to a number first.\<close>

definition isNaN :: "runtime \<Rightarrow> jsany \<Rightarrow> error + bool" where
  "isNaN rt v = and_then (ToNumber rt v) (\<lambda>n. Inr (n = NaN))"

fun isArray :: "jsany \<Rightarrow> bool" where
  "isArray (Data (JArr xs)) = True"
| "isArray _ = False"

subsection \<open>Comparison\<close>

text \<open>Numeric \<open><\<close>; \<open>None\<close> is the standard's \<^verbatim>\<open>undefined\<close> outcome when an operand
  is \<open>NaN\<close>.\<close>

fun num_lt :: "jsnum \<Rightarrow> jsnum \<Rightarrow> bool option" where
  "num_lt NaN _ = None"
| "num_lt _ NaN = None"
| "num_lt PosInfinity _ = Some False"
| "num_lt _ NegInfinity = Some False"
| "num_lt NegInfinity _ = Some True"
| "num_lt _ PosInfinity = Some True"
| "num_lt (Fin a) (Fin b) = Some (a < b)"

text \<open>Strings compare by code units, a proper prefix being smaller.\<close>

fun str_lt :: "string \<Rightarrow> string \<Rightarrow> bool" where
  "str_lt _ [] = False"
| "str_lt [] (y # ys) = True"
| "str_lt (x # xs) (y # ys) =
     (if (of_char x :: nat) < of_char y then True
      else if x = y then str_lt xs ys else False)"

definition IsLessThan :: "runtime \<Rightarrow> jsany \<Rightarrow> jsany \<Rightarrow> error + bool option" where
  "IsLessThan rt a b =
     and_then (ToPrimitive rt HintNumber a) (\<lambda>pa.
     and_then (ToPrimitive rt HintNumber b) (\<lambda>pb.
       case (pa, pb) of
         (JStr s, JStr t) \<Rightarrow> Inr (Some (str_lt s t))
       | _ \<Rightarrow>
           and_then (data_number rt pa) (\<lambda>na.
           and_then (data_number rt pb) (\<lambda>nb. Inr (num_lt na nb)))))"

text \<open>The four relational operators: an undefined outcome is \<^verbatim>\<open>false\<close> for each.\<close>

definition js_lt :: "runtime \<Rightarrow> jsany \<Rightarrow> jsany \<Rightarrow> error + bool" where
  "js_lt rt a b =
     and_then (IsLessThan rt a b) (\<lambda>r. Inr (case r of None \<Rightarrow> False | Some l \<Rightarrow> l))"

definition js_gt :: "runtime \<Rightarrow> jsany \<Rightarrow> jsany \<Rightarrow> error + bool" where
  "js_gt rt a b =
     and_then (IsLessThan rt b a) (\<lambda>r. Inr (case r of None \<Rightarrow> False | Some l \<Rightarrow> l))"

definition js_le :: "runtime \<Rightarrow> jsany \<Rightarrow> jsany \<Rightarrow> error + bool" where
  "js_le rt a b =
     and_then (IsLessThan rt b a) (\<lambda>r. Inr (case r of None \<Rightarrow> False | Some l \<Rightarrow> \<not> l))"

definition js_ge :: "runtime \<Rightarrow> jsany \<Rightarrow> jsany \<Rightarrow> error + bool" where
  "js_ge rt a b =
     and_then (IsLessThan rt a b) (\<lambda>r. Inr (case r of None \<Rightarrow> False | Some l \<Rightarrow> \<not> l))"

text \<open>\<^verbatim>\<open>a === b\<close>: same type and same value, \<open>NaN\<close> unequal to itself. In the engine
  the left operand is always a freshly converted primitive, so an array or object on
  either side is never the same reference.\<close>

fun strict_eq :: "jsany \<Rightarrow> jsany \<Rightarrow> bool" where
  "strict_eq (Data JUndefined) (Data JUndefined) = True"
| "strict_eq (Data JNull) (Data JNull) = True"
| "strict_eq (Data (JBool a)) (Data (JBool b)) = (a = b)"
| "strict_eq (Data (JNum a)) (Data (JNum b)) = (a \<noteq> NaN \<and> a = b)"
| "strict_eq (Data (JStr s)) (Data (JStr t)) = (s = t)"
| "strict_eq (Host a) (Host b) = (a = b)"
| "strict_eq _ _ = False"

text \<open>The comparison of \<^verbatim>\<open>Array.prototype.includes\<close>: as \<^verbatim>\<open>===\<close>, but \<open>NaN\<close> equals
  itself. The elements of a record's array and of a payload's array are distinct
  objects, so an array or object element never matches.\<close>

fun SameValueZero :: "jsval \<Rightarrow> jsval \<Rightarrow> bool" where
  "SameValueZero JUndefined JUndefined = True"
| "SameValueZero JNull JNull = True"
| "SameValueZero (JBool a) (JBool b) = (a = b)"
| "SameValueZero (JNum a) (JNum b) = (a = b)"
| "SameValueZero (JStr s) (JStr t) = (s = t)"
| "SameValueZero _ _ = False"

definition array_includes :: "jsval list \<Rightarrow> jsval \<Rightarrow> bool" where
  "array_includes xs v = list_ex (\<lambda>x. SameValueZero x v) xs"

subsection \<open>Strings\<close>

definition startsWith :: "string \<Rightarrow> string \<Rightarrow> bool" where
  "startsWith s t = (length t \<le> length s \<and> take (length t) s = t)"

definition endsWith :: "string \<Rightarrow> string \<Rightarrow> bool" where
  "endsWith s t = (length t \<le> length s \<and> drop (length s - length t) s = t)"

text \<open>\<^verbatim>\<open>s.includes(t)\<close>: \<open>t\<close> occurs in \<open>s\<close> at some position.\<close>

fun str_includes :: "string \<Rightarrow> string \<Rightarrow> bool" where
  "str_includes [] t = (t = [])"
| "str_includes (x # xs) t = (startsWith (x # xs) t \<or> str_includes xs t)"

text \<open>\<^verbatim>\<open>path.split('.')\<close>: the pieces between the dots; the empty string has one empty
  piece.\<close>

fun split_dot :: "string \<Rightarrow> string list" where
  "split_dot [] = [[]]"
| "split_dot (c # cs) =
     (if c = CHR ''.'' then [] # split_dot cs
      else (case split_dot cs of
              w # ws \<Rightarrow> (c # w) # ws
            | [] \<Rightarrow> [[c]]))"

subsection \<open>Property access\<close>

definition is_digit :: "char \<Rightarrow> bool" where
  "is_digit c = (48 \<le> (of_char c :: nat) \<and> (of_char c :: nat) \<le> 57)"

definition digits_nat :: "string \<Rightarrow> nat" where
  "digits_nat s = foldl (\<lambda>n c. 10 * n + (of_char c - 48)) 0 s"

text \<open>A property name is an array index when it is the canonical decimal form of a
  natural number.\<close>

definition array_index :: "string \<Rightarrow> nat option" where
  "array_index p =
     (if p = [] \<or> \<not> list_all is_digit p \<or> (1 < length p \<and> hd p = CHR ''0'') then None
      else Some (digits_nat p))"

text \<open>The properties a JSON value has of its own: the entries of an object, the
  elements and the length of an array or string.\<close>

fun own_property :: "jsval \<Rightarrow> string \<Rightarrow> jsval option" where
  "own_property (JObj kvs) p = map_of kvs p"
| "own_property (JArr xs) p =
     (if p = ''length'' then Some (JNum (Fin (of_nat (length xs))))
      else (case array_index p of
              Some i \<Rightarrow> if i < length xs then Some (xs ! i) else None
            | None \<Rightarrow> None))"
| "own_property (JStr s) p =
     (if p = ''length'' then Some (JNum (Fin (of_nat (length s))))
      else (case array_index p of
              Some i \<Rightarrow> if i < length s then Some (JStr [s ! i]) else None
            | None \<Rightarrow> None))"
| "own_property _ p = None"

text \<open>
  Reading property \<open>p\<close> of a value that is neither \<^verbatim>\<open>null\<close> nor \<^verbatim>\<open>undefined\<close>: its own
  property of that name if it has one, otherwise what it inherits, which the runtime
  says. \<^verbatim>\<open>v.p\<close> raises on \<^verbatim>\<open>null\<close> and \<^verbatim>\<open>undefined\<close>; \<^verbatim>\<open>v?.[p]\<close> gives \<^verbatim>\<open>undefined\<close>
  there.
\<close>

definition Get :: "runtime \<Rightarrow> jsany \<Rightarrow> string \<Rightarrow> error + jsany" where
  "Get rt v p =
     (case v of
        Data d \<Rightarrow>
          (case own_property d p of
             Some x \<Rightarrow> Inr (Data x)
           | None \<Rightarrow> inherited rt v p)
      | Host b \<Rightarrow> inherited rt v p)"

definition GetV :: "runtime \<Rightarrow> jsany \<Rightarrow> string \<Rightarrow> error + jsany" where
  "GetV rt v p = (if nullish v then Inl TypeError else Get rt v p)"

definition OptGet :: "runtime \<Rightarrow> jsany \<Rightarrow> string \<Rightarrow> error + jsany" where
  "OptGet rt v p = (if nullish v then Inr (Data JUndefined) else Get rt v p)"

text \<open>\<^verbatim>\<open>xs.reduce(f, init)\<close> with a callback that can raise.\<close>

fun reduce_js :: "('b \<Rightarrow> 'a \<Rightarrow> error + 'b) \<Rightarrow> 'a list \<Rightarrow> 'b \<Rightarrow> error + 'b" where
  "reduce_js f [] acc = Inr acc"
| "reduce_js f (x # xs) acc = and_then (f acc x) (reduce_js f xs)"

subsection \<open>Dates\<close>

text \<open>A \<^verbatim>\<open>Date\<close> object is its time value: milliseconds since the epoch, or \<open>None\<close> for
  the invalid date, whose \<^verbatim>\<open>getTime()\<close> is \<open>NaN\<close>.\<close>

type_synonym Date = "int option"

definition msPerDay :: int where
  "msPerDay = 86400000"

definition TimeClip :: "jsnum \<Rightarrow> Date" where
  "TimeClip n =
     (case n of
        Fin r \<Rightarrow> if 8640000000000000 < \<bar>r\<bar> then None
                 else Some (if 0 \<le> r then \<lfloor>r\<rfloor> else \<lceil>r\<rceil>)
      | _ \<Rightarrow> None)"

text \<open>\<^verbatim>\<open>new Date(v)\<close>: the primitive of \<open>v\<close> is parsed if it is a string, and taken as
  a number of milliseconds otherwise.\<close>

definition Date_new :: "runtime \<Rightarrow> jsany \<Rightarrow> error + Date" where
  "Date_new rt v =
     and_then (ToPrimitive rt HintDefault v) (\<lambda>p.
       case p of
         JStr s \<Rightarrow> Inr (TimeClip (DateParse rt s))
       | _ \<Rightarrow> and_then (data_number rt p) (\<lambda>n. Inr (TimeClip n)))"

definition LocalTime :: "runtime \<Rightarrow> int \<Rightarrow> int" where
  "LocalTime rt t = t + LocalTZA rt t True"

definition UTC :: "runtime \<Rightarrow> int \<Rightarrow> int" where
  "UTC rt t = t - LocalTZA rt t False"

definition Day :: "int \<Rightarrow> int" where
  "Day t = t div msPerDay"

definition MakeTime :: "int \<Rightarrow> int \<Rightarrow> int \<Rightarrow> int \<Rightarrow> int" where
  "MakeTime h m s ms = h * 3600000 + m * 60000 + s * 1000 + ms"

definition MakeDate :: "int \<Rightarrow> int \<Rightarrow> int" where
  "MakeDate day time = day * msPerDay + time"

text \<open>\<^verbatim>\<open>d.setHours(h, m, s, ms)\<close> replaces the time within the local day of \<open>d\<close>; the
  model returns the date the source mutates.\<close>

definition setHours :: "runtime \<Rightarrow> Date \<Rightarrow> int \<Rightarrow> int \<Rightarrow> int \<Rightarrow> int \<Rightarrow> Date" where
  "setHours rt d h m s ms =
     (case d of
        None \<Rightarrow> None
      | Some t \<Rightarrow>
          TimeClip (Fin (of_int (UTC rt (MakeDate (Day (LocalTime rt t)) (MakeTime h m s ms))))))"

text \<open>Two dates compare by their time values; a comparison with an invalid date is
  false.\<close>

definition date_le :: "Date \<Rightarrow> Date \<Rightarrow> bool" where
  "date_le a b = (case (a, b) of (Some x, Some y) \<Rightarrow> x \<le> y | _ \<Rightarrow> False)"

definition date_ge :: "Date \<Rightarrow> Date \<Rightarrow> bool" where
  "date_ge a b = (case (a, b) of (Some x, Some y) \<Rightarrow> y \<le> x | _ \<Rightarrow> False)"

section \<open>The filter engine\<close>

type_synonym Employee = jsval

subsection \<open>Field resolution\<close>

text \<open>
  \<^verbatim>\<open>path.split('.').reduce((current, prop) => current?.[prop], obj)\<close>. Only a string
  has a \<^verbatim>\<open>split\<close> method: JSON data hold no functions, and none of the prototypes a
  number, boolean, array, object or function inherits from has a member of that name.
  So for any other path the call of \<^verbatim>\<open>path.split\<close> raises.
\<close>

definition getNestedValue :: "runtime \<Rightarrow> jsany \<Rightarrow> jsany \<Rightarrow> error + jsany" where
  "getNestedValue rt obj path =
     (case path of
        Data (JStr p) \<Rightarrow> reduce_js (\<lambda>current prop. OptGet rt current prop) (split_dot p) obj
      | _ \<Rightarrow> Inl TypeError)"

subsection \<open>The seven predicate families\<close>

definition applyTextFilter :: "runtime \<Rightarrow> jsany \<Rightarrow> string \<Rightarrow> jsval \<Rightarrow> error + bool" where
  "applyTextFilter rt val operator filterValue =
     (if val = Data JNull \<or> val = Data JUndefined then Inr False
      else
        and_then (ToString rt val) (\<lambda>str.
          let stringValue = toLowerCase rt str in
          and_then (GetV rt (Data filterValue) ''value'') (\<lambda>v.
            case v of
              Data (JStr s) \<Rightarrow>
                let searchValue = toLowerCase rt s in
                if operator = ''equals'' then Inr (stringValue = searchValue)
                else if operator = ''contains'' then Inr (str_includes stringValue searchValue)
                else if operator = ''startsWith'' then Inr (startsWith stringValue searchValue)
                else if operator = ''endsWith'' then Inr (endsWith stringValue searchValue)
                else if operator = ''doesNotContain''
                  then Inr (\<not> str_includes stringValue searchValue)
                else Inr False
            | _ \<Rightarrow> Inl TypeError)))"

definition applyNumberFilter :: "runtime \<Rightarrow> jsany \<Rightarrow> string \<Rightarrow> jsval \<Rightarrow> error + bool" where
  "applyNumberFilter rt val operator filterValue =
     (if val = Data JNull \<or> val = Data JUndefined then Inr False
      else
        and_then (ToNumber rt val) (\<lambda>n.
          let numValue = Data (JNum n) in
          and_then (GetV rt (Data filterValue) ''value'') (\<lambda>filterNum.
          and_then (isNaN rt numValue) (\<lambda>nan1.
            if nan1 then Inr False
            else
              and_then (isNaN rt filterNum) (\<lambda>nan2.
                if nan2 then Inr False
                else if operator = ''equals'' then Inr (strict_eq numValue filterNum)
                else if operator = ''greaterThan'' then js_gt rt numValue filterNum
                else if operator = ''lessThan'' then js_lt rt numValue filterNum
                else if operator = ''greaterThanOrEqual'' then js_ge rt numValue filterNum
                else if operator = ''lessThanOrEqual'' then js_le rt numValue filterNum
                else Inr False)))))"

definition applyDateFilter :: "runtime \<Rightarrow> jsany \<Rightarrow> string \<Rightarrow> jsval \<Rightarrow> error + bool" where
  "applyDateFilter rt val operator filterValue =
     (if val = Data JNull \<or> val = Data JUndefined then Inr False
      else
        and_then (Date_new rt val) (\<lambda>dateValue.
        and_then (GetV rt (Data filterValue) ''startDate'') (\<lambda>sd.
        and_then (Date_new rt sd) (\<lambda>startDate.
        and_then (GetV rt (Data filterValue) ''endDate'') (\<lambda>ed.
        and_then (Date_new rt ed) (\<lambda>endDate.
          if dateValue = None \<or> startDate = None \<or> endDate = None then Inr False
          else if operator = ''between'' then
            let startDate' = setHours rt startDate 0 0 0 0;
                endDate' = setHours rt endDate 23 59 59 999
            in Inr (date_ge dateValue startDate' \<and> date_le dateValue endDate')
          else Inr False))))))"

definition applyAmountFilter :: "runtime \<Rightarrow> jsany \<Rightarrow> string \<Rightarrow> jsval \<Rightarrow> error + bool" where
  "applyAmountFilter rt val operator filterValue =
     (if val = Data JNull \<or> val = Data JUndefined then Inr False
      else
        and_then (ToNumber rt val) (\<lambda>n.
          let numValue = Data (JNum n) in
          and_then (GetV rt (Data filterValue) ''minAmount'') (\<lambda>minAmount.
          and_then (GetV rt (Data filterValue) ''maxAmount'') (\<lambda>maxAmount.
          and_then (isNaN rt numValue) (\<lambda>nan1.
            if nan1 then Inr False
            else
              and_then (isNaN rt minAmount) (\<lambda>nan2.
                if nan2 then Inr False
                else
                  and_then (isNaN rt maxAmount) (\<lambda>nan3.
                    if nan3 then Inr False
                    else if operator = ''between'' then
                      and_then (js_ge rt numValue minAmount) (\<lambda>ge.
                        if ge then js_le rt numValue maxAmount else Inr False)
                    else Inr False)))))))"

definition applySingleSelectFilter :: "runtime \<Rightarrow> jsany \<Rightarrow> string \<Rightarrow> jsval \<Rightarrow> error + bool" where
  "applySingleSelectFilter rt val operator filterValue =
     (if val = Data JNull \<or> val = Data JUndefined then Inr False
      else
        and_then (ToString rt val) (\<lambda>str.
          let stringValue = Data (JStr str) in
          and_then (GetV rt (Data filterValue) ''value'') (\<lambda>selectedValue.
            if operator = ''is'' then Inr (strict_eq stringValue selectedValue)
            else if operator = ''isNot'' then Inr (\<not> strict_eq stringValue selectedValue)
            else Inr False)))"

text \<open>The guard of the multi-select family evaluates left to right and stops at the
  first disjunct that holds, so the payload is not read when the record's value is not
  an array.\<close>

definition applyMultiSelectFilter :: "runtime \<Rightarrow> jsany \<Rightarrow> string \<Rightarrow> jsval \<Rightarrow> error + bool" where
  "applyMultiSelectFilter rt val operator filterValue =
     (case val of
        Data (JArr xs) \<Rightarrow>
          and_then (GetV rt (Data filterValue) ''values'') (\<lambda>values.
            case values of
              Data (JArr ys) \<Rightarrow>
                if length ys = 0 then Inr False
                else if operator = ''in'' then
                  Inr (list_ex (\<lambda>selectedValue. array_includes xs selectedValue) ys)
                else if operator = ''notIn'' then
                  Inr (\<not> list_ex (\<lambda>selectedValue. array_includes xs selectedValue) ys)
                else Inr False
            | _ \<Rightarrow> Inr False)
      | _ \<Rightarrow> Inr False)"

definition applyBooleanFilter :: "runtime \<Rightarrow> jsany \<Rightarrow> string \<Rightarrow> jsval \<Rightarrow> error + bool" where
  "applyBooleanFilter rt val operator filterValue =
     (if val = Data JNull \<or> val = Data JUndefined then Inr False
      else if operator = ''is'' then
        and_then (GetV rt (Data filterValue) ''value'') (\<lambda>b.
          Inr (strict_eq (Data (JBool (ToBoolean val))) b))
      else Inr False)"

subsection \<open>One condition on one record\<close>

text \<open>A record of the data set is an object. A condition carries its field type and
  operator as the strings the engine switches on, and its payload as an arbitrary
  value, since the engine casts it without a check.\<close>

record FilterCondition =
  id_c :: string
  field :: string
  operator :: string
  value_c :: jsval
  fieldType :: string

text \<open>
  The first two lines of \<^verbatim>\<open>applyFilterCondition\<close>: the path is
  \<^verbatim>\<open>fieldPath || condition.field\<close>, so a missing or empty explicit path falls back to
  the condition's field, and the record's value is what the resolver finds there.
\<close>

definition field_value ::
  "runtime \<Rightarrow> Employee \<Rightarrow> FilterCondition \<Rightarrow> jsany \<Rightarrow> error + jsany" where
  "field_value rt employee condition fieldPath =
     (let path = (if ToBoolean fieldPath then fieldPath else Data (JStr (field condition)))
      in getNestedValue rt (Data employee) path)"

definition applyFilterCondition ::
  "runtime \<Rightarrow> Employee \<Rightarrow> FilterCondition \<Rightarrow> jsany \<Rightarrow> error + bool" where
  "applyFilterCondition rt employee condition fieldPath =
     and_then (field_value rt employee condition fieldPath) (\<lambda>fieldValue.
       if fieldType condition = ''text'' then
         applyTextFilter rt fieldValue (operator condition) (value_c condition)
       else if fieldType condition = ''number'' then
         applyNumberFilter rt fieldValue (operator condition) (value_c condition)
       else if fieldType condition = ''date'' then
         applyDateFilter rt fieldValue (operator condition) (value_c condition)
       else if fieldType condition = ''amount'' then
         applyAmountFilter rt fieldValue (operator condition) (value_c condition)
       else if fieldType condition = ''singleSelect'' then
         applySingleSelectFilter rt fieldValue (operator condition) (value_c condition)
       else if fieldType condition = ''multiSelect'' then
         applyMultiSelectFilter rt fieldValue (operator condition) (value_c condition)
       else if fieldType condition = ''boolean'' then
         applyBooleanFilter rt fieldValue (operator condition) (value_c condition)
       else Inr False)"

subsection \<open>The filter over a collection\<close>

text \<open>\<^verbatim>\<open>Array.prototype.every\<close> and \<^verbatim>\<open>Array.prototype.filter\<close> with a callback that
  can raise: \<open>every\<close> stops at the first element that fails, and a fault of the
  callback leaves both at once.\<close>

fun every_js :: "('a \<Rightarrow> error + bool) \<Rightarrow> 'a list \<Rightarrow> error + bool" where
  "every_js p [] = Inr True"
| "every_js p (x # xs) =
     (case p x of
        Inl e \<Rightarrow> Inl e
      | Inr b \<Rightarrow> if b then every_js p xs else Inr False)"

fun filter_js :: "('a \<Rightarrow> error + bool) \<Rightarrow> 'a list \<Rightarrow> error + 'a list" where
  "filter_js p [] = Inr []"
| "filter_js p (x # xs) =
     (case p x of
        Inl e \<Rightarrow> Inl e
      | Inr b \<Rightarrow>
          (case filter_js p xs of
             Inl e \<Rightarrow> Inl e
           | Inr ys \<Rightarrow> Inr (if b then x # ys else ys)))"

text \<open>
  The path map is a plain object, given by its own entries (the default is the empty
  object). \<^verbatim>\<open>fieldPaths[condition.field]\<close> is a property read like any other: for a
  field key that is not an entry it gives what a plain object inherits under that name,
  which for \<^verbatim>\<open>constructor\<close> or \<^verbatim>\<open>toString\<close> is a function. \<open>condition_matches\<close> is
  the callback given to \<^verbatim>\<open>every\<close>.
\<close>

definition condition_matches ::
  "runtime \<Rightarrow> (string \<times> jsval) list \<Rightarrow> Employee \<Rightarrow> FilterCondition \<Rightarrow> error + bool" where
  "condition_matches rt fieldPaths employee condition =
     and_then (Get rt (Data (JObj fieldPaths)) (field condition)) (\<lambda>fieldPath.
       applyFilterCondition rt employee condition fieldPath)"

definition filterEmployees ::
  "runtime \<Rightarrow> Employee list \<Rightarrow> FilterCondition list \<Rightarrow> (string \<times> jsval) list
     \<Rightarrow> error + Employee list" where
  "filterEmployees rt employees conditions fieldPaths =
     (if length conditions = 0 then Inr employees
      else
        filter_js (\<lambda>employee.
          every_js (\<lambda>condition. condition_matches rt fieldPaths employee condition) conditions)
          employees)"

subsection \<open>Validation\<close>

text \<open>The body of the \<^verbatim>\<open>try\<close> block, and the validator that turns every fault of the
  body into \<^verbatim>\<open>false\<close>.\<close>

definition isValid_body :: "runtime \<Rightarrow> FilterCondition \<Rightarrow> error + bool" where
  "isValid_body rt condition =
     (let payload = Data (value_c condition) in
      if fieldType condition = ''text'' then
        and_then (GetV rt payload ''value'') (\<lambda>v.
          if \<not> ToBoolean v then Inr False
          else (case v of
                  Data (JStr s) \<Rightarrow> Inr (0 < length (trim rt s))
                | _ \<Rightarrow> Inl TypeError))
      else if fieldType condition = ''number'' then
        and_then (GetV rt payload ''value'') (\<lambda>v.
        and_then (isNaN rt v) (\<lambda>nan1. Inr (\<not> nan1)))
      else if fieldType condition = ''date'' then
        and_then (GetV rt payload ''startDate'') (\<lambda>sd.
        and_then (Date_new rt sd) (\<lambda>startDate.
        and_then (GetV rt payload ''endDate'') (\<lambda>ed.
        and_then (Date_new rt ed) (\<lambda>endDate.
          Inr (startDate \<noteq> None \<and> endDate \<noteq> None \<and> date_le startDate endDate)))))
      else if fieldType condition = ''amount'' then
        and_then (GetV rt payload ''minAmount'') (\<lambda>minAmount.
        and_then (isNaN rt minAmount) (\<lambda>nan1.
          if nan1 then Inr False
          else
            and_then (GetV rt payload ''maxAmount'') (\<lambda>maxAmount.
            and_then (isNaN rt maxAmount) (\<lambda>nan2.
              if nan2 then Inr False else js_le rt minAmount maxAmount))))
      else if fieldType condition = ''singleSelect'' then
        and_then (GetV rt payload ''value'') (\<lambda>v. Inr (ToBoolean v))
      else if fieldType condition = ''multiSelect'' then
        and_then (GetV rt payload ''values'') (\<lambda>v.
          case v of
            Data (JArr ys) \<Rightarrow> Inr (0 < length ys)
          | _ \<Rightarrow> Inr False)
      else if fieldType condition = ''boolean'' then
        and_then (GetV rt payload ''value'') (\<lambda>v.
          case v of
            Data (JBool b) \<Rightarrow> Inr True
          | _ \<Rightarrow> Inr False)
      else Inr False)"

definition isValidFilterCondition :: "runtime \<Rightarrow> FilterCondition \<Rightarrow> bool" where
  "isValidFilterCondition rt condition =
     (case isValid_body rt condition of
        Inl e \<Rightarrow> False
      | Inr b \<Rightarrow> b)"

section \<open>Notions for the statements\<close>

text \<open>
  The value of a record that \<open>condition_matches\<close> finds for a condition and hands to the
  predicate family: the path of the condition's field is looked up in the path map and
  resolved against the record.
\<close>

definition resolved_value ::
  "runtime \<Rightarrow> (string \<times> jsval) list \<Rightarrow> Employee \<Rightarrow> FilterCondition \<Rightarrow> error + jsany" where
  "resolved_value rt fieldPaths employee condition =
     and_then (Get rt (Data (JObj fieldPaths)) (field condition)) (\<lambda>fieldPath.
       field_value rt employee condition fieldPath)"

text \<open>A value converts when none of the three conversions the families apply to a
  record's value raises: \<^verbatim>\<open>String(v)\<close>, \<^verbatim>\<open>Number(v)\<close> and \<^verbatim>\<open>new Date(v)\<close>.\<close>

definition converts :: "runtime \<Rightarrow> jsany \<Rightarrow> bool" where
  "converts rt v =
     (\<not> isl (ToString rt v) \<and> \<not> isl (ToNumber rt v) \<and> \<not> isl (Date_new rt v))"

text \<open>JSON data convert when the objects in them, as far as the conversion of an array
  reaches, have no \<^verbatim>\<open>toString\<close> entry of their own.\<close>

fun convertible :: "jsval \<Rightarrow> bool" where
  "convertible (JArr xs) = list_all (\<lambda>x. convertible x) xs"
| "convertible (JObj kvs) = (map_of kvs ''toString'' = None)"
| "convertible _ = True"

section \<open>A reference runtime\<close>

text \<open>
  The examples run on a concrete runtime. It follows the language on what the examples
  use and is not a model of it beyond that:
  \<^item> case mapping and trimming treat ASCII letters and ASCII white space only;
  \<^item> a string converts to a number if it is a decimal integer literal, possibly
    with a minus sign or surrounded by white space, or blank; other strings give
    \<open>NaN\<close>;
  \<^item> a number prints in decimal digits if it is integral (which agrees with the
    language for magnitudes below ten to the power 21), and as a fraction otherwise;
  \<^item> the date parser knows the date-only form \<^verbatim>\<open>YYYY-MM-DD\<close>, midnight UTC of that
    day, with a month from 01 to 12 and a day from 01 to 31; a day past the end of its
    month counts on into the next month, as common engines do; other strings do not
    parse;
  \<^item> of what values inherit it knows \<^verbatim>\<open>constructor\<close>, the methods of the object
    prototype, and the \<^verbatim>\<open>name\<close> of a built-in function; the \<^verbatim>\<open>__proto__\<close> accessor
    and the members of the string, array, number and function prototypes are not in it,
    and no example reads them;
  \<^item> a built-in function converts to the string of its source text.
  The time zone is a parameter.
\<close>

definition lower_char :: "char \<Rightarrow> char" where
  "lower_char c =
     (if 65 \<le> (of_char c :: nat) \<and> (of_char c :: nat) \<le> 90
      then char_of (of_char c + (32 :: nat)) else c)"

definition is_space :: "char \<Rightarrow> bool" where
  "is_space c = ((of_char c :: nat) \<in> {9, 10, 11, 12, 13, 32})"

definition trim_ws :: "string \<Rightarrow> string" where
  "trim_ws s = rev (dropWhile is_space (rev (dropWhile is_space s)))"

fun nat_digits :: "nat \<Rightarrow> string" where
  "nat_digits n =
     (if n < 10 then [char_of (48 + n)]
      else nat_digits (n div 10) @ [char_of (48 + n mod 10)])"

definition int_digits :: "int \<Rightarrow> string" where
  "int_digits i = (if i < 0 then CHR ''-'' # nat_digits (nat (- i)) else nat_digits (nat i))"

definition print_number :: "rat \<Rightarrow> string" where
  "print_number r =
     (case quotient_of r of
        (n, d) \<Rightarrow> if d = 1 then int_digits n else int_digits n @ ''/'' @ int_digits d)"

definition read_number :: "string \<Rightarrow> jsnum" where
  "read_number s =
     (let t = trim_ws s in
      if t = [] then Fin 0
      else if list_all is_digit t then Fin (of_nat (digits_nat t))
      else if hd t = CHR ''-'' \<and> tl t \<noteq> [] \<and> list_all is_digit (tl t)
        then Fin (- of_nat (digits_nat (tl t)))
      else NaN)"

definition DayFromYear :: "int \<Rightarrow> int" where
  "DayFromYear y =
     365 * (y - 1970) + (y - 1969) div 4 - (y - 1901) div 100 + (y - 1601) div 400"

definition InLeapYear :: "int \<Rightarrow> bool" where
  "InLeapYear y = (if y mod 100 = 0 then y mod 400 = 0 else y mod 4 = 0)"

definition DaysInMonth :: "int \<Rightarrow> nat \<Rightarrow> int" where
  "DaysInMonth y m =
     (if m = 2 then (if InLeapYear y then 29 else 28)
      else if m \<in> {4, 6, 9, 11} then 30 else 31)"

definition MakeDay :: "int \<Rightarrow> nat \<Rightarrow> int \<Rightarrow> int" where
  "MakeDay y m d = DayFromYear y + (\<Sum>k \<leftarrow> [1..<m]. DaysInMonth y k) + d - 1"

definition parse_date_only :: "string \<Rightarrow> jsnum" where
  "parse_date_only s =
     (if length s = 10 \<and> s ! 4 = CHR ''-'' \<and> s ! 7 = CHR ''-''
         \<and> list_all is_digit (take 4 s) \<and> list_all is_digit (take 2 (drop 5 s))
         \<and> list_all is_digit (drop 8 s)
      then
        (let y = int (digits_nat (take 4 s));
             m = digits_nat (take 2 (drop 5 s));
             d = int (digits_nat (drop 8 s))
         in if 1 \<le> m \<and> m \<le> 12 \<and> 1 \<le> d \<and> d \<le> 31
            then Fin (of_int (MakeDay y m d * msPerDay)) else NaN)
      else NaN)"

definition object_prototype_members :: "string list" where
  "object_prototype_members =
     [''hasOwnProperty'', ''isPrototypeOf'', ''propertyIsEnumerable'', ''toLocaleString'',
      ''toString'', ''valueOf'', ''__defineGetter__'', ''__defineSetter__'',
      ''__lookupGetter__'', ''__lookupSetter__'']"

fun constructor_name :: "jsany \<Rightarrow> string" where
  "constructor_name (Data (JStr s)) = ''String''"
| "constructor_name (Data (JNum n)) = ''Number''"
| "constructor_name (Data (JBool b)) = ''Boolean''"
| "constructor_name (Data (JArr xs)) = ''Array''"
| "constructor_name (Data v) = ''Object''"
| "constructor_name (Host b) = ''Function''"

text \<open>The name of a built-in function: the last piece of the dotted name that
  identifies it.\<close>

definition function_name :: "string \<Rightarrow> string" where
  "function_name b = last (split_dot b)"

definition inherited_member :: "jsany \<Rightarrow> string \<Rightarrow> error + jsany" where
  "inherited_member v p =
     (if p = ''constructor'' then Inr (Host (constructor_name v))
      else if List.member object_prototype_members p then Inr (Host (''Object.prototype.'' @ p))
      else (case v of
              Host b \<Rightarrow> if p = ''name'' then Inr (Data (JStr (function_name b)))
                        else Inr (Data JUndefined)
            | Data d \<Rightarrow> Inr (Data JUndefined)))"

definition function_source :: "string \<Rightarrow> hint \<Rightarrow> error + jsval" where
  "function_source b h = Inr (JStr (''function '' @ function_name b @ ''() { [native code] }''))"

definition reference_runtime :: "(int \<Rightarrow> bool \<Rightarrow> int) \<Rightarrow> runtime" where
  "reference_runtime zone =
     \<lparr> toLowerCase = map lower_char,
       trim = trim_ws,
       NumberToString = print_number,
       StringToNumber = read_number,
       DateParse = parse_date_only,
       LocalTZA = zone,
       inherited = inherited_member,
       HostToPrimitive = function_source \<rparr>"

subsection \<open>Time zones\<close>

text \<open>A zone at a fixed offset from UTC, in milliseconds.\<close>

definition fixed_zone :: "int \<Rightarrow> int \<Rightarrow> bool \<Rightarrow> int" where
  "fixed_zone offset t isUTC = offset"


text \<open>
  A zone one hour ahead of UTC whose clocks are set back by one hour at local midnight
  after 2023-06-15 (at 23:00 UTC of that day), so that the hour from 23:00 to 24:00 of
  that local day passes twice.
\<close>

definition midnight_set_back :: "int \<Rightarrow> bool \<Rightarrow> int" where
  "midnight_set_back t isUTC =
     (if isUTC then (if t < 1686870000000 then 3600000 else 0)
      else (if t < 1686873600000 then 3600000 else 0))"

section \<open>Example data\<close>

text \<open>Two records in the shape of the data set's employees, the second without an
  address, and conditions of the kinds the user interface builds.\<close>

definition rt_utc :: runtime where
  "rt_utc = reference_runtime (fixed_zone 0)"

definition rt_utc_minus_5 :: runtime where
  "rt_utc_minus_5 = reference_runtime (fixed_zone (- 18000000))"


definition rt_midnight_set_back :: runtime where
  "rt_midnight_set_back = reference_runtime midnight_set_back"

definition ann :: Employee where
  "ann = JObj
     [(''id'', JNum (Fin 1)), (''name'', JStr ''Ann Lee''),
      (''department'', JStr ''Engineering''), (''role'', JStr ''Senior Engineer''),
      (''salary'', JNum (Fin 95000)), (''joinDate'', JStr ''2023-06-15''),
      (''isActive'', JBool True), (''skills'', JArr [JStr ''React'', JStr ''SQL'']),
      (''address'', JObj [(''city'', JStr ''Austin''), (''state'', JStr ''TX''),
                           (''country'', JStr ''USA'')]),
      (''projects'', JNum (Fin 3))]"

definition bob :: Employee where
  "bob = JObj
     [(''id'', JNum (Fin 2)), (''name'', JStr ''Bob Ray''),
      (''department'', JStr ''Engineering''), (''role'', JStr ''Engineer''),
      (''salary'', JNum (Fin 70000)), (''joinDate'', JStr ''2024-05-01''),
      (''isActive'', JBool False), (''skills'', JArr [JStr ''Java'']),
      (''projects'', JNum (Fin 7))]"

text \<open>A record whose role is an object with a \<^verbatim>\<open>toString\<close> entry of its own.\<close>

definition cyd :: Employee where
  "cyd = JObj
     [(''id'', JNum (Fin 3)), (''name'', JStr ''Cyd Orr''),
      (''role'', JObj [(''toString'', JStr ''Engineer'')])]"

text \<open>The path map the user interface builds from the field catalogue.\<close>

definition catalogue_paths :: "(string \<times> jsval) list" where
  "catalogue_paths =
     [(''address.city'', JStr ''address.city''), (''address.state'', JStr ''address.state''),
      (''address.country'', JStr ''address.country'')]"

definition department_is_engineering :: FilterCondition where
  "department_is_engineering =
     \<lparr> id_c = ''filter-1'', field = ''department'', operator = ''is'',
       value_c = JObj [(''value'', JStr ''Engineering'')], fieldType = ''singleSelect'' \<rparr>"

definition salary_from_90000 :: FilterCondition where
  "salary_from_90000 =
     \<lparr> id_c = ''filter-2'', field = ''salary'', operator = ''between'',
       value_c = JObj [(''minAmount'', JNum (Fin 90000)), (''maxAmount'', JNum (Fin 999999))],
       fieldType = ''amount'' \<rparr>"

definition city_contains_aus :: FilterCondition where
  "city_contains_aus =
     \<lparr> id_c = ''filter-3'', field = ''address.city'', operator = ''contains'',
       value_c = JObj [(''value'', JStr ''AUS'')], fieldType = ''text'' \<rparr>"

definition role_contains_engineer :: FilterCondition where
  "role_contains_engineer =
     \<lparr> id_c = ''filter-4'', field = ''role'', operator = ''contains'',
       value_c = JObj [(''value'', JStr ''engineer'')], fieldType = ''text'' \<rparr>"

definition role_between_engineer :: FilterCondition where
  "role_between_engineer =
     \<lparr> id_c = ''filter-5'', field = ''role'', operator = ''between'',
       value_c = JObj [(''value'', JStr ''engineer'')], fieldType = ''text'' \<rparr>"

definition role_without_value :: FilterCondition where
  "role_without_value =
     \<lparr> id_c = ''filter-6'', field = ''role'', operator = ''contains'',
       value_c = JObj [], fieldType = ''text'' \<rparr>"

definition joined_inverted_range :: FilterCondition where
  "joined_inverted_range =
     \<lparr> id_c = ''filter-7'', field = ''joinDate'', operator = ''between'',
       value_c = JObj [(''startDate'', JStr ''2024-05-01''), (''endDate'', JStr ''2024-01-01'')],
       fieldType = ''date'' \<rparr>"

definition joined_on_2023_06_15 :: FilterCondition where
  "joined_on_2023_06_15 =
     \<lparr> id_c = ''filter-8'', field = ''joinDate'', operator = ''between'',
       value_c = JObj [(''startDate'', JStr ''2023-06-15''), (''endDate'', JStr ''2023-06-15'')],
       fieldType = ''date'' \<rparr>"

text \<open>A well-formed condition whose field key is the name of an inherited member.\<close>

definition constructor_contains_a :: FilterCondition where
  "constructor_contains_a =
     \<lparr> id_c = ''filter-9'', field = ''constructor'', operator = ''contains'',
       value_c = JObj [(''value'', JStr ''a'')], fieldType = ''text'' \<rparr>"

section \<open>Faults and the two array callbacks\<close>

lemma error_eq: "(a :: error) = b"
  by (cases a; cases b) simp

lemma returns_iff: "(\<exists>b. r = Inr b) = (\<not> isl r)"
  by (cases r) simp_all

lemma and_then_Inr_iff: "(and_then r f = Inr y) = (\<exists>x. r = Inr x \<and> f x = Inr y)"
  by (cases r) simp_all

lemma and_then_returns: "r = Inr x \<Longrightarrow> and_then r f = f x"
  by simp

lemma every_js_True_iff: "(every_js p xs = Inr True) = (\<forall>x\<in>set xs. p x = Inr True)"
  by (induction xs) (auto split: sum.splits)

lemma every_js_returns:
  "\<forall>x\<in>set xs. \<exists>b. p x = Inr b \<Longrightarrow> every_js p xs = Inr (\<forall>x\<in>set xs. p x = Inr True)"
  by (induction xs) auto

lemma filter_js_returns:
  "\<forall>x\<in>set xs. \<exists>b. p x = Inr b \<Longrightarrow> filter_js p xs = Inr (filter (\<lambda>x. p x = Inr True) xs)"
  by (induction xs) auto

text \<open>Filtering by two conditions at once is filtering by the first and then by the
  second, faults included: either way the call raises exactly when some record makes
  the first condition raise, or passes it and makes the second raise.\<close>

lemma filter_js_seq:
  "filter_js (\<lambda>x. every_js (f x) [c1, c2]) xs =
     (case filter_js (\<lambda>x. every_js (f x) [c1]) xs of
        Inl e \<Rightarrow> Inl e
      | Inr ys \<Rightarrow> filter_js (\<lambda>x. every_js (f x) [c2]) ys)"
proof (induction xs)
  case Nil
  show ?case by simp
next
  case (Cons x xs)
  show ?case
    using Cons.IH
    by (cases "f x c1"; cases "f x c2") (auto split: sum.splits intro: error_eq)
qed

text \<open>When no evaluation raises, the filter returns, and returns the matching records
  in input order.\<close>

lemma filterEmployees_returns:
  assumes "conditions \<noteq> []"
    and "\<forall>e\<in>set employees. \<forall>c\<in>set conditions.
           \<exists>b. condition_matches rt fieldPaths e c = Inr b"
  shows "filterEmployees rt employees conditions fieldPaths =
     Inr (filter (\<lambda>e. \<forall>c\<in>set conditions.
            condition_matches rt fieldPaths e c = Inr True) employees)"
proof -
  let ?ev = "\<lambda>e c. condition_matches rt fieldPaths e c"
  have ev: "every_js (?ev e) conditions = Inr (\<forall>c\<in>set conditions. ?ev e c = Inr True)"
    if "e \<in> set employees" for e
    using assms(2) that by (intro every_js_returns) blast
  then have "\<forall>e\<in>set employees. \<exists>b. every_js (?ev e) conditions = Inr b"
    by blast
  then have "filter_js (\<lambda>e. every_js (?ev e) conditions) employees =
      Inr (filter (\<lambda>e. every_js (?ev e) conditions = Inr True) employees)"
    by (rule filter_js_returns)
  also have "filter (\<lambda>e. every_js (?ev e) conditions = Inr True) employees =
      filter (\<lambda>e. \<forall>c\<in>set conditions. ?ev e c = Inr True) employees"
    by (simp add: every_js_True_iff)
  finally show ?thesis
    using assms(1) by (simp add: filterEmployees_def)
qed

section \<open>String tests and array membership\<close>

lemma startsWith_prefix: "startsWith s t = prefix t s"
proof
  assume "startsWith s t"
  then have "take (length t) s = t" by (simp add: startsWith_def)
  then have "s = t @ drop (length t) s" by (metis append_take_drop_id)
  then show "prefix t s" by (rule prefixI)
next
  assume "prefix t s"
  then obtain zs where "s = t @ zs" by (auto simp: prefix_def)
  then show "startsWith s t" by (simp add: startsWith_def)
qed

lemma endsWith_suffix: "endsWith s t = suffix t s"
proof
  assume "endsWith s t"
  then have "drop (length s - length t) s = t" by (simp add: endsWith_def)
  then have "s = take (length s - length t) s @ t" by (metis append_take_drop_id)
  then show "suffix t s" by (rule suffixI)
next
  assume "suffix t s"
  then obtain zs where "s = zs @ t" by (auto simp: suffix_def)
  then show "endsWith s t" by (simp add: endsWith_def)
qed

lemma str_includes_sublist: "str_includes s t = sublist t s"
  by (induction s) (simp_all add: sublist_Cons_right startsWith_prefix)

lemma array_includes_strings: "array_includes (map JStr xs) (JStr y) = (y \<in> set xs)"
  by (induction xs) (auto simp: array_includes_def)

lemma some_includes_strings:
  "list_ex (\<lambda>selectedValue. array_includes (map JStr xs) selectedValue) (map JStr ys) =
     (set xs \<inter> set ys \<noteq> {})"
  by (induction ys) (auto simp: array_includes_strings)

text \<open>Reading a property an object has of its own.\<close>

lemma GetV_own:
  "map_of kvs p = Some x \<Longrightarrow> GetV rt (Data (JObj kvs)) p = Inr (Data x)"
  by (simp add: GetV_def Get_def)

section \<open>Which calls can raise\<close>

lemma ToPrimitive_primitive: "ToPrimitive rt h v = Inr p \<Longrightarrow> is_primitive p"
proof (cases v)
  case (Data d)
  assume "ToPrimitive rt h v = Inr p"
  with Data show ?thesis
    by (cases d) (auto simp: and_then_Inr_iff)
next
  case (Host b)
  assume "ToPrimitive rt h v = Inr p"
  with Host show ?thesis
    by (auto simp: and_then_Inr_iff split: if_splits)
qed

lemma primitive_string: "is_primitive p \<Longrightarrow> \<exists>s. data_string rt p = Inr s"
proof (cases p)
  case (JNum n)
  then show ?thesis by (cases n) simp_all
qed simp_all

lemma primitive_number: "is_primitive p \<Longrightarrow> \<exists>n. data_number rt p = Inr n"
  by (cases p) simp_all

lemma converts_ToString: "converts rt v \<Longrightarrow> \<exists>s. ToString rt v = Inr s"
  by (simp add: converts_def returns_iff)

lemma converts_ToNumber: "converts rt v \<Longrightarrow> \<exists>n. ToNumber rt v = Inr n"
  by (simp add: converts_def returns_iff)

lemma converts_Date_new: "converts rt v \<Longrightarrow> \<exists>d. Date_new rt v = Inr d"
  by (simp add: converts_def returns_iff)

lemma isNaN_number: "isNaN rt (Data (JNum n)) = Inr (n = NaN)"
  by (simp add: isNaN_def ToNumber_def)

lemma IsLessThan_number_left:
  assumes "ToNumber rt a = Inr x"
  shows "IsLessThan rt (Data (JNum n)) a = Inr (num_lt n x)"
proof -
  from assms obtain p where p: "ToPrimitive rt HintNumber a = Inr p" "data_number rt p = Inr x"
    by (auto simp: ToNumber_def and_then_Inr_iff)
  then show ?thesis
    by (simp add: IsLessThan_def)
qed

lemma IsLessThan_number_right:
  assumes "ToNumber rt a = Inr x"
  shows "IsLessThan rt a (Data (JNum n)) = Inr (num_lt x n)"
proof -
  from assms obtain p where p: "ToPrimitive rt HintNumber a = Inr p" "data_number rt p = Inr x"
    by (auto simp: ToNumber_def and_then_Inr_iff)
  then show ?thesis
    by (cases p) (simp_all add: IsLessThan_def)
qed

lemma compare_number_returns:
  assumes "ToNumber rt a = Inr x"
  shows "\<exists>b. js_gt rt (Data (JNum n)) a = Inr b" and "\<exists>b. js_lt rt (Data (JNum n)) a = Inr b"
    and "\<exists>b. js_ge rt (Data (JNum n)) a = Inr b" and "\<exists>b. js_le rt (Data (JNum n)) a = Inr b"
  by (simp_all add: js_gt_def js_lt_def js_ge_def js_le_def
        IsLessThan_number_left [OF assms] IsLessThan_number_right [OF assms])

lemma isNaN_returns: "isNaN rt v = Inr b \<Longrightarrow> \<exists>x. ToNumber rt v = Inr x"
  by (auto simp: isNaN_def and_then_Inr_iff)

lemma applyTextFilter_returns:
  assumes "converts rt v" and "GetV rt (Data pl) ''value'' = Inr (Data (JStr s))"
  shows "\<exists>b. applyTextFilter rt v op pl = Inr b"
proof -
  from converts_ToString [OF assms(1)] obtain str where "ToString rt v = Inr str" ..
  then show ?thesis
    unfolding returns_iff by (simp add: applyTextFilter_def assms(2) Let_def)
qed

lemma applyNumberFilter_returns:
  assumes "converts rt v" and "GetV rt (Data pl) ''value'' = Inr w" and "isNaN rt w = Inr b"
  shows "\<exists>r. applyNumberFilter rt v op pl = Inr r"
proof -
  from converts_ToNumber [OF assms(1)] obtain n where n: "ToNumber rt v = Inr n" ..
  from isNaN_returns [OF assms(3)] obtain x where x: "ToNumber rt w = Inr x" ..
  note c = compare_number_returns [OF x, of n, unfolded returns_iff]
  show ?thesis
    unfolding returns_iff
    by (simp add: applyNumberFilter_def n assms(2,3) Let_def isNaN_number c)
qed

lemma applyDateFilter_returns:
  assumes "converts rt v"
    and "GetV rt (Data pl) ''startDate'' = Inr sd" and "Date_new rt sd = Inr s"
    and "GetV rt (Data pl) ''endDate'' = Inr ed" and "Date_new rt ed = Inr e"
  shows "\<exists>r. applyDateFilter rt v op pl = Inr r"
proof -
  from converts_Date_new [OF assms(1)] obtain d where "Date_new rt v = Inr d" ..
  then show ?thesis
    unfolding returns_iff by (simp add: applyDateFilter_def assms(2-5) Let_def)
qed

lemma applyAmountFilter_returns:
  assumes "converts rt v"
    and "GetV rt (Data pl) ''minAmount'' = Inr mn" and "isNaN rt mn = Inr b"
    and "GetV rt (Data pl) ''maxAmount'' = Inr mx" and "isNaN rt mx = Inr b'"
  shows "\<exists>r. applyAmountFilter rt v op pl = Inr r"
proof -
  from converts_ToNumber [OF assms(1)] obtain n where n: "ToNumber rt v = Inr n" ..
  from isNaN_returns [OF assms(3)] obtain x where x: "ToNumber rt mn = Inr x" ..
  from isNaN_returns [OF assms(5)] obtain y where y: "ToNumber rt mx = Inr y" ..
  from compare_number_returns(3) [OF x, of n] obtain g
    where g: "js_ge rt (Data (JNum n)) mn = Inr g" ..
  note l = compare_number_returns(4) [OF y, of n, unfolded returns_iff]
  show ?thesis
    unfolding returns_iff
    by (simp add: applyAmountFilter_def n assms(2-5) Let_def isNaN_number g l)
qed

lemma applySingleSelectFilter_returns:
  assumes "converts rt v" and "GetV rt (Data pl) ''value'' = Inr w"
  shows "\<exists>r. applySingleSelectFilter rt v op pl = Inr r"
proof -
  from converts_ToString [OF assms(1)] obtain str where "ToString rt v = Inr str" ..
  then show ?thesis
    unfolding returns_iff by (simp add: applySingleSelectFilter_def assms(2) Let_def)
qed

lemma applyMultiSelectFilter_returns:
  assumes "GetV rt (Data pl) ''values'' = Inr w"
  shows "\<exists>r. applyMultiSelectFilter rt v op pl = Inr r"
  unfolding returns_iff
  by (simp add: applyMultiSelectFilter_def assms split: jsany.splits jsval.splits)

lemma applyBooleanFilter_returns:
  assumes "GetV rt (Data pl) ''value'' = Inr w"
  shows "\<exists>r. applyBooleanFilter rt v op pl = Inr r"
  unfolding returns_iff by (simp add: applyBooleanFilter_def assms)

text \<open>What a verdict of validity says about the payload, family by family.\<close>

lemma valid_body: "isValidFilterCondition rt c \<Longrightarrow> isValid_body rt c = Inr True"
  by (cases "isValid_body rt c") (simp_all add: isValidFilterCondition_def)

lemma valid_text:
  assumes "isValidFilterCondition rt c" and "fieldType c = ''text''"
  shows "\<exists>s. GetV rt (Data (value_c c)) ''value'' = Inr (Data (JStr s))"
  using valid_body [OF assms(1)] assms(2)
  by (auto simp: isValid_body_def Let_def and_then_Inr_iff split: if_splits jsany.splits jsval.splits)

lemma valid_number:
  assumes "isValidFilterCondition rt c" and "fieldType c = ''number''"
  shows "\<exists>w b. GetV rt (Data (value_c c)) ''value'' = Inr w \<and> isNaN rt w = Inr b"
  using valid_body [OF assms(1)] assms(2)
  by (auto simp: isValid_body_def Let_def and_then_Inr_iff)

lemma valid_date:
  assumes "isValidFilterCondition rt c" and "fieldType c = ''date''"
  shows "\<exists>sd s ed e. GetV rt (Data (value_c c)) ''startDate'' = Inr sd \<and> Date_new rt sd = Inr s
      \<and> GetV rt (Data (value_c c)) ''endDate'' = Inr ed \<and> Date_new rt ed = Inr e"
  using valid_body [OF assms(1)] assms(2)
  by (auto simp: isValid_body_def Let_def and_then_Inr_iff)

lemma valid_amount:
  assumes "isValidFilterCondition rt c" and "fieldType c = ''amount''"
  shows "\<exists>mn b mx b'. GetV rt (Data (value_c c)) ''minAmount'' = Inr mn \<and> isNaN rt mn = Inr b
      \<and> GetV rt (Data (value_c c)) ''maxAmount'' = Inr mx \<and> isNaN rt mx = Inr b'"
  using valid_body [OF assms(1)] assms(2)
  by (auto simp: isValid_body_def Let_def and_then_Inr_iff split: if_splits)

lemma valid_singleSelect:
  assumes "isValidFilterCondition rt c" and "fieldType c = ''singleSelect''"
  shows "\<exists>w. GetV rt (Data (value_c c)) ''value'' = Inr w"
  using valid_body [OF assms(1)] assms(2)
  by (auto simp: isValid_body_def Let_def and_then_Inr_iff)

lemma valid_multiSelect:
  assumes "isValidFilterCondition rt c" and "fieldType c = ''multiSelect''"
  shows "\<exists>w. GetV rt (Data (value_c c)) ''values'' = Inr w"
  using valid_body [OF assms(1)] assms(2)
  by (auto simp: isValid_body_def Let_def and_then_Inr_iff)

lemma valid_boolean:
  assumes "isValidFilterCondition rt c" and "fieldType c = ''boolean''"
  shows "\<exists>w. GetV rt (Data (value_c c)) ''value'' = Inr w"
  using valid_body [OF assms(1)] assms(2)
  by (auto simp: isValid_body_def Let_def and_then_Inr_iff)

text \<open>A condition that validates, applied to a value that converts, does not raise.\<close>

lemma valid_condition_returns:
  assumes valid: "isValidFilterCondition rt c"
    and found: "field_value rt e c fp = Inr v" and conv: "converts rt v"
  shows "\<exists>b. applyFilterCondition rt e c fp = Inr b"
proof -
  consider (a) "fieldType c = ''text''" | (b) "fieldType c = ''number''"
    | (c) "fieldType c = ''date''" | (d) "fieldType c = ''amount''"
    | (e) "fieldType c = ''singleSelect''" | (f) "fieldType c = ''multiSelect''"
    | (g) "fieldType c = ''boolean''"
    | (h) "fieldType c \<notin> {''text'', ''number'', ''date'', ''amount'', ''singleSelect'',
             ''multiSelect'', ''boolean''}"
    by blast
  then show ?thesis
  proof cases
    case a
    from valid_text [OF valid a] obtain s
      where "GetV rt (Data (value_c c)) ''value'' = Inr (Data (JStr s))" ..
    from applyTextFilter_returns [OF conv this] show ?thesis
      by (simp add: applyFilterCondition_def found a)
  next
    case b
    from valid_number [OF valid b] obtain w n
      where "GetV rt (Data (value_c c)) ''value'' = Inr w" "isNaN rt w = Inr n" by blast
    from applyNumberFilter_returns [OF conv this] show ?thesis
      by (simp add: applyFilterCondition_def found b)
  next
    case c
    from valid_date [OF valid c] obtain sd s ed e
      where "GetV rt (Data (value_c c)) ''startDate'' = Inr sd" "Date_new rt sd = Inr s"
        "GetV rt (Data (value_c c)) ''endDate'' = Inr ed" "Date_new rt ed = Inr e" by blast
    from applyDateFilter_returns [OF conv this] show ?thesis
      by (simp add: applyFilterCondition_def found c)
  next
    case d
    from valid_amount [OF valid d] obtain mn n mx n'
      where "GetV rt (Data (value_c c)) ''minAmount'' = Inr mn" "isNaN rt mn = Inr n"
        "GetV rt (Data (value_c c)) ''maxAmount'' = Inr mx" "isNaN rt mx = Inr n'" by blast
    from applyAmountFilter_returns [OF conv this] show ?thesis
      by (simp add: applyFilterCondition_def found d)
  next
    case e
    from valid_singleSelect [OF valid e] obtain w
      where "GetV rt (Data (value_c c)) ''value'' = Inr w" ..
    from applySingleSelectFilter_returns [OF conv this] show ?thesis
      by (simp add: applyFilterCondition_def found e)
  next
    case f
    from valid_multiSelect [OF valid f] obtain w
      where "GetV rt (Data (value_c c)) ''values'' = Inr w" ..
    from applyMultiSelectFilter_returns [OF this] show ?thesis
      by (simp add: applyFilterCondition_def found f)
  next
    case g
    from valid_boolean [OF valid g] obtain w
      where "GetV rt (Data (value_c c)) ''value'' = Inr w" ..
    from applyBooleanFilter_returns [OF this] show ?thesis
      by (simp add: applyFilterCondition_def found g)
  next
    case h
    then show ?thesis
      by (auto simp add: applyFilterCondition_def found)
  qed
qed

lemma valid_condition_matches:
  assumes "isValidFilterCondition rt c"
    and "resolved_value rt P e c = Inr v" and "converts rt v"
  shows "\<exists>b. condition_matches rt P e c = Inr b"
proof -
  from assms(2) obtain fp where fp: "Get rt (Data (JObj P)) (field c) = Inr fp"
      "field_value rt e c fp = Inr v"
    by (auto simp: resolved_value_def and_then_Inr_iff)
  from valid_condition_returns [OF assms(1) fp(2) assms(3)] show ?thesis
    by (simp add: condition_matches_def fp(1))
qed

lemma data_string_convertible: "convertible v \<Longrightarrow> \<exists>s. data_string rt v = Inr s"
proof (induction v rule: convertible.induct)
  case (1 xs)
  have "\<exists>ss. sequence_js (map (\<lambda>x. if x = JUndefined \<or> x = JNull then Inr []
      else data_string rt x) ys) = Inr ss" if "set ys \<subseteq> set xs" for ys
    using that
  proof (induction ys)
    case Nil
    show ?case by simp
  next
    case (Cons y ys)
    then have "y \<in> set xs" and "convertible y"
      using "1.prems" by (auto simp: list_all_iff)
    with "1.IH" obtain s where "data_string rt y = Inr s" by blast
    moreover from Cons obtain ss where "sequence_js (map (\<lambda>x. if x = JUndefined \<or> x = JNull
        then Inr [] else data_string rt x) ys) = Inr ss" by auto
    ultimately show ?case by simp
  qed
  then obtain ss where "sequence_js (map (\<lambda>x. if x = JUndefined \<or> x = JNull then Inr []
      else data_string rt x) xs) = Inr ss" by blast
  then show ?case by simp
next
  case (2 kvs)
  then show ?case by simp
qed (simp_all add: primitive_string)

lemma convertible_converts: "convertible v \<Longrightarrow> converts rt (Data v)"
proof -
  assume "convertible v"
  from data_string_convertible [OF this] obtain s where s: "data_string rt v = Inr s" ..
  then obtain p where p: "ToPrimitive rt h (Data v) = Inr p" for h
    by (cases v) simp_all
  from primitive_string [OF ToPrimitive_primitive [OF p]] obtain str
    where str: "data_string rt p = Inr str" ..
  from primitive_number [OF ToPrimitive_primitive [OF p]] obtain n
    where n: "data_number rt p = Inr n" ..
  have "\<not> isl (Date_new rt (Data v))"
    using p [of HintDefault] n by (cases p) (simp_all add: Date_new_def)
  then show ?thesis
    using p str n by (simp add: converts_def ToString_def ToNumber_def)
qed

section \<open>Days\<close>


lemma Day_bounds: "Day t * msPerDay \<le> t \<and> t < Day t * msPerDay + msPerDay"
proof -
  have pos: "0 < msPerDay" by (simp add: msPerDay_def)
  have "t div msPerDay * msPerDay + t mod msPerDay = t"
    by (rule div_mult_mod_eq)
  moreover have "0 \<le> t mod msPerDay" and "t mod msPerDay < msPerDay"
    using pos by simp_all
  ultimately show ?thesis
    unfolding Day_def by linarith
qed

lemma Day_ge_iff: "(D \<le> Day t) = (D * msPerDay \<le> t)"
proof
  assume "D \<le> Day t"
  then have "D * msPerDay \<le> Day t * msPerDay" by (simp add: msPerDay_def)
  with Day_bounds [of t] show "D * msPerDay \<le> t" by linarith
next
  assume le: "D * msPerDay \<le> t"
  show "D \<le> Day t"
  proof (rule ccontr)
    assume "\<not> D \<le> Day t"
    then have "Day t + 1 \<le> D" by simp
    then have "(Day t + 1) * msPerDay \<le> D * msPerDay" by (simp add: msPerDay_def)
    with Day_bounds [of t] le show False by (simp add: algebra_simps)
  qed
qed

lemma Day_le_iff: "(Day t \<le> D) = (t < D * msPerDay + msPerDay)"
proof -
  have "(Day t \<le> D) = (\<not> D + 1 \<le> Day t)" by auto
  also have "\<dots> = (\<not> (D + 1) * msPerDay \<le> t)" by (simp only: Day_ge_iff)
  also have "\<dots> = (t < D * msPerDay + msPerDay)" by (auto simp: algebra_simps)
  finally show ?thesis .
qed

text \<open>In a zone at a fixed offset every local day is whole.\<close>

lemma fixed_offset_whole_days:
  assumes "\<forall>t u. LocalTZA rt t u = offset"
  shows "D \<le> Day (LocalTime rt t) \<Longrightarrow> UTC rt (MakeDate D (MakeTime 0 0 0 0)) \<le> t"
    and "Day (LocalTime rt t) \<le> D \<Longrightarrow> t \<le> UTC rt (MakeDate D (MakeTime 23 59 59 999))"
  using assms
  by (simp_all add: Day_ge_iff Day_le_iff LocalTime_def UTC_def MakeDate_def MakeTime_def
        msPerDay_def)


section \<open>The filter over a collection: claims C1, C5 and C6\<close>

text \<open>
  Claim C1. For every record collection, every non-empty condition list and every
  field-path map, \<open>filterEmployees\<close> returns exactly the records on which every
  condition of the list evaluates to true, in the order they have in the input: the
  result is the input list restricted to the matching records. The evaluation of a
  condition on a record is \<open>condition_matches\<close>, the callback the filter gives to
  \<^verbatim>\<open>every\<close>: it looks the path of the condition's field up and applies the condition.
  The call returns when no evaluation of a condition on a record raises, which is the
  hypothesis here; claim C2 is about the calls that raise.
\<close>

theorem filterEmployees_all_conditions_in_order:
  assumes "conditions \<noteq> []"
    and "\<forall>e\<in>set employees. \<forall>c\<in>set conditions.
           \<exists>b. condition_matches rt fieldPaths e c = Inr b"
  shows "filterEmployees rt employees conditions fieldPaths =
     Inr (filter (\<lambda>e. \<forall>c\<in>set conditions.
            condition_matches rt fieldPaths e c = Inr True) employees)"
  using assms by (rule filterEmployees_returns)

theorem filterEmployees_all_conditions_in_order_witness:
  "filterEmployees rt_utc [bob, ann, bob] [department_is_engineering, salary_from_90000]
     catalogue_paths = Inr [ann]"
proof -
  have ev:
    "condition_matches rt_utc catalogue_paths ann department_is_engineering = Inr True"
    "condition_matches rt_utc catalogue_paths ann salary_from_90000 = Inr True"
    "condition_matches rt_utc catalogue_paths bob department_is_engineering = Inr True"
    "condition_matches rt_utc catalogue_paths bob salary_from_90000 = Inr False"
    by code_simp+
  show ?thesis
    using filterEmployees_all_conditions_in_order
      [of "[department_is_engineering, salary_from_90000]" "[bob, ann, bob]" rt_utc
          catalogue_paths]
    by (auto simp add: ev)
qed

text \<open>
  Claim C5. With an empty condition list \<open>filterEmployees\<close> returns the record
  collection it was given: the same elements in the same order, for every collection
  and every field-path map.
\<close>

theorem filterEmployees_no_conditions:
  "filterEmployees rt R [] P = Inr R"
  by (simp add: filterEmployees_def)

text \<open>
  Claim C6. Filtering by the two conditions \<open>[c1, c2]\<close> equals filtering by \<open>[c1]\<close>
  and then filtering the result by \<open>[c2]\<close>, for all records, conditions and path
  maps. The right-hand side is the nested call of the claim: the inner call's result is
  passed on, and its fault, if it raises, is the fault of the whole expression.
\<close>

theorem filterEmployees_sequential:
  "filterEmployees rt R [c1, c2] P =
     (case filterEmployees rt R [c1] P of
        Inl e \<Rightarrow> Inl e
      | Inr R' \<Rightarrow> filterEmployees rt R' [c2] P)"
proof -
  let ?ev = "\<lambda>e c. condition_matches rt P e c"
  have one: "filterEmployees rt xs [c] P = filter_js (\<lambda>e. every_js (?ev e) [c]) xs" for xs c
    by (simp add: filterEmployees_def del: every_js.simps)
  have two: "filterEmployees rt R [c1, c2] P = filter_js (\<lambda>e. every_js (?ev e) [c1, c2]) R"
    by (simp add: filterEmployees_def del: every_js.simps)
  show ?thesis
    unfolding one two by (rule filter_js_seq)
qed

section \<open>Faults: claim C2\<close>

text \<open>
  Claim C2, as amended. The validator never raises: a fault inside it makes the verdict
  false. The filter and the evaluation of a condition have no handler of their own.
  They do not raise when every condition they are given has passed the validator and,
  for every record and condition, the record's value is found without a fault (the path
  map gives a string or nothing for the condition's field, so that the path can be
  split, and no property read raises) and converts (\<^verbatim>\<open>String\<close>, \<^verbatim>\<open>Number\<close> and
  \<^verbatim>\<open>new Date\<close> of it do not raise, as is the case for JSON data in which no object
  has a \<^verbatim>\<open>toString\<close> entry of its own). Otherwise they can raise instead of returning
  false. The counterexample is a text condition whose payload has no \<^verbatim>\<open>value\<close>; the
  two lemmas after it show that the conditions on the path map and on the record's
  value are needed: a validated condition raises when its field key is the name of an
  inherited member, and when the record's value has a \<^verbatim>\<open>toString\<close> entry of its own.
\<close>

theorem validated_conditions_never_raise:
  assumes valid: "\<forall>c\<in>set conditions. isValidFilterCondition rt c"
    and found: "\<forall>e\<in>set employees. \<forall>c\<in>set conditions.
      \<exists>v. resolved_value rt fieldPaths e c = Inr v \<and> converts rt v"
  shows "(\<exists>rs. filterEmployees rt employees conditions fieldPaths = Inr rs)
       \<and> (\<forall>e\<in>set employees. \<forall>c\<in>set conditions.
            \<exists>b. condition_matches rt fieldPaths e c = Inr b)
       \<and> isValidFilterCondition rt c' = (isValid_body rt c' = Inr True)"
proof -
  have ev: "\<exists>b. condition_matches rt fieldPaths e c = Inr b"
    if "e \<in> set employees" and "c \<in> set conditions" for e c
  proof -
    from valid that have "isValidFilterCondition rt c" by simp
    moreover from found that obtain v
      where "resolved_value rt fieldPaths e c = Inr v" and "converts rt v" by blast
    ultimately show ?thesis by (rule valid_condition_matches)
  qed
  then have each: "\<forall>e\<in>set employees. \<forall>c\<in>set conditions.
      \<exists>b. condition_matches rt fieldPaths e c = Inr b"
    by simp
  have returns: "\<exists>rs. filterEmployees rt employees conditions fieldPaths = Inr rs"
  proof (cases "conditions = []")
    case True
    then show ?thesis by (simp add: filterEmployees_def)
  next
    case False
    from filterEmployees_returns [OF False each] show ?thesis ..
  qed
  have caught: "isValidFilterCondition rt c' = (isValid_body rt c' = Inr True)"
    by (cases "isValid_body rt c'") (simp_all add: isValidFilterCondition_def)
  from returns each caught show ?thesis
    by (intro conjI)
qed

theorem validated_conditions_never_raise_witness:
  "filterEmployees rt_utc [ann, bob] [city_contains_aus, joined_on_2023_06_15] catalogue_paths
     \<noteq> Inl TypeError"
proof -
  have "isValidFilterCondition rt_utc city_contains_aus"
    and "isValidFilterCondition rt_utc joined_on_2023_06_15"
    by code_simp+
  then have valid: "\<forall>c\<in>set [city_contains_aus, joined_on_2023_06_15].
      isValidFilterCondition rt_utc c"
    by simp
  have r: "resolved_value rt_utc catalogue_paths ann city_contains_aus = Inr (Data (JStr ''Austin''))"
    "resolved_value rt_utc catalogue_paths bob city_contains_aus = Inr (Data JUndefined)"
    "resolved_value rt_utc catalogue_paths ann joined_on_2023_06_15 = Inr (Data (JStr ''2023-06-15''))"
    "resolved_value rt_utc catalogue_paths bob joined_on_2023_06_15 = Inr (Data (JStr ''2024-05-01''))"
    by code_simp+
  have found: "\<forall>e\<in>set [ann, bob]. \<forall>c\<in>set [city_contains_aus, joined_on_2023_06_15].
      \<exists>v. resolved_value rt_utc catalogue_paths e c = Inr v \<and> converts rt_utc v"
    by (simp add: r convertible_converts)
  from validated_conditions_never_raise [OF valid found, THEN conjunct1]
  obtain rs where "filterEmployees rt_utc [ann, bob]
      [city_contains_aus, joined_on_2023_06_15] catalogue_paths = Inr rs" ..
  then show ?thesis
    by simp
qed

theorem malformed_text_payload_raises:
  "filterEmployees rt_utc [ann] [role_without_value] [] = Inl TypeError"
  by code_simp

lemma inherited_member_as_path_raises:
  "isValidFilterCondition rt_utc constructor_contains_a
   \<and> filterEmployees rt_utc [ann] [constructor_contains_a] [] = Inl TypeError"
  by code_simp

lemma own_toString_raises:
  "isValidFilterCondition rt_utc role_contains_engineer
   \<and> filterEmployees rt_utc [cyd] [role_contains_engineer] [] = Inl TypeError"
  by code_simp

section \<open>Absent values: claim C7\<close>

text \<open>
  Claim C7. If the field resolver finds nothing for a record and a path (the value it
  returns is \<^verbatim>\<open>undefined\<close> or \<^verbatim>\<open>null\<close>), the condition that refers to that path
  evaluates to false on the record, whatever its field type, operator and payload: six
  families test for the absent value first, and the multiSelect family rejects a value
  that is not an array.
\<close>

theorem absent_value_never_matches:
  assumes "field_value rt employee condition fieldPath = Inr v" and "nullish v"
  shows "applyFilterCondition rt employee condition fieldPath = Inr False"
proof -
  from assms(2) have v: "v = Data JNull \<or> v = Data JUndefined"
    by (cases v rule: nullish.cases) simp_all
  have "applyTextFilter rt v op pl = Inr False" for op pl
    using v by (auto simp: applyTextFilter_def)
  moreover have "applyNumberFilter rt v op pl = Inr False" for op pl
    using v by (auto simp: applyNumberFilter_def)
  moreover have "applyDateFilter rt v op pl = Inr False" for op pl
    using v by (auto simp: applyDateFilter_def)
  moreover have "applyAmountFilter rt v op pl = Inr False" for op pl
    using v by (auto simp: applyAmountFilter_def)
  moreover have "applySingleSelectFilter rt v op pl = Inr False" for op pl
    using v by (auto simp: applySingleSelectFilter_def)
  moreover have "applyMultiSelectFilter rt v op pl = Inr False" for op pl
    using v by (auto simp: applyMultiSelectFilter_def)
  moreover have "applyBooleanFilter rt v op pl = Inr False" for op pl
    using v by (auto simp: applyBooleanFilter_def)
  ultimately show ?thesis
    by (simp add: applyFilterCondition_def assms(1))
qed

theorem absent_value_never_matches_witness:
  "applyFilterCondition rt_utc bob city_contains_aus (Data (JStr ''address.city'')) = Inr False"
proof -
  have "field_value rt_utc bob city_contains_aus (Data (JStr ''address.city''))
      = Inr (Data JUndefined)"
    by code_simp
  then show ?thesis
    by (rule absent_value_never_matches) simp
qed

section \<open>The text family: claim C9\<close>

text \<open>
  Claim C9. In the text family the record's value is converted to a string, and that
  string and the filter's value are both put in lower case before they are compared, so
  the match does not depend on case. With \<open>a\<close> the lower-case string of the record's
  value and \<open>b\<close> the lower-case filter value: \<^verbatim>\<open>equals\<close> holds iff \<open>a = b\<close>,
  \<^verbatim>\<open>contains\<close> iff \<open>b\<close> occurs in \<open>a\<close>, \<^verbatim>\<open>startsWith\<close> iff \<open>b\<close> is a prefix of \<open>a\<close>,
  \<^verbatim>\<open>endsWith\<close> iff \<open>b\<close> is a suffix of \<open>a\<close>, and \<^verbatim>\<open>doesNotContain\<close> is the negation
  of \<^verbatim>\<open>contains\<close>. This is the comparison the family makes once it has a value to
  compare: the record's value is present and the payload is of the text shape, an
  object whose \<^verbatim>\<open>value\<close> is a string. The conversion of the record's value is
  \<^verbatim>\<open>String(value)\<close>, which returns for every value of the record type; where it
  raises, the family raises.
\<close>

theorem text_operators_on_lowercase:
  assumes "val \<noteq> Data JNull" and "val \<noteq> Data JUndefined"
    and "filterValue = JObj kvs" and "map_of kvs ''value'' = Some (JStr s)"
  shows "applyTextFilter rt val ''equals'' filterValue =
           and_then (ToString rt val) (\<lambda>str.
             Inr (toLowerCase rt str = toLowerCase rt s))
       \<and> applyTextFilter rt val ''contains'' filterValue =
           and_then (ToString rt val) (\<lambda>str.
             Inr (sublist (toLowerCase rt s) (toLowerCase rt str)))
       \<and> applyTextFilter rt val ''startsWith'' filterValue =
           and_then (ToString rt val) (\<lambda>str.
             Inr (prefix (toLowerCase rt s) (toLowerCase rt str)))
       \<and> applyTextFilter rt val ''endsWith'' filterValue =
           and_then (ToString rt val) (\<lambda>str.
             Inr (suffix (toLowerCase rt s) (toLowerCase rt str)))
       \<and> applyTextFilter rt val ''doesNotContain'' filterValue =
           and_then (ToString rt val) (\<lambda>str.
             Inr (\<not> sublist (toLowerCase rt s) (toLowerCase rt str)))"
proof -
  have g: "GetV rt (Data filterValue) ''value'' = Inr (Data (JStr s))"
    using assms(3,4) by (simp add: GetV_own)
  show ?thesis
    using assms(1,2)
    by (simp add: applyTextFilter_def g Let_def str_includes_sublist startsWith_prefix
          endsWith_suffix)
qed

theorem text_operators_on_lowercase_witness:
  "applyTextFilter rt_utc (Data (JStr ''Senior Engineer'')) ''contains''
     (JObj [(''value'', JStr ''engineer'')]) = Inr True"
proof -
  have "ToString rt_utc (Data (JStr ''Senior Engineer'')) = Inr ''Senior Engineer''"
    and "sublist (toLowerCase rt_utc ''engineer'') (toLowerCase rt_utc ''Senior Engineer'')"
    by code_simp+
  then show ?thesis
    using text_operators_on_lowercase
      [of "Data (JStr ''Senior Engineer'')" "JObj [(''value'', JStr ''engineer'')]"
          "[(''value'', JStr ''engineer'')]" "''engineer''" rt_utc]
    by simp
qed

section \<open>The multiSelect family: claim C4\<close>

text \<open>
  Claim C4, as amended. For a record value that is an array of strings and a payload
  whose \<^verbatim>\<open>values\<close> is a list of strings: \<^verbatim>\<open>in\<close> is true iff the list is not empty and
  shares an element with the record's array, and \<^verbatim>\<open>notIn\<close> is true iff the list is
  not empty and shares no element with it. So \<^verbatim>\<open>notIn\<close> is the negation of \<^verbatim>\<open>in\<close>
  exactly when the list of values is not empty; for the empty list the guard of the
  family makes both operators false, as the counterexample below shows.
\<close>

theorem multiSelect_in_and_notIn:
  "applyMultiSelectFilter rt (Data (JArr (map JStr xs))) ''in''
       (JObj [(''values'', JArr (map JStr ys))]) =
     Inr (ys \<noteq> [] \<and> set xs \<inter> set ys \<noteq> {})
   \<and> applyMultiSelectFilter rt (Data (JArr (map JStr xs))) ''notIn''
       (JObj [(''values'', JArr (map JStr ys))]) =
     Inr (ys \<noteq> [] \<and> set xs \<inter> set ys = {})"
  by (simp add: applyMultiSelectFilter_def GetV_own some_includes_strings)

theorem multiSelect_empty_values_both_false:
  "applyMultiSelectFilter rt_utc (Data (JArr [JStr ''React'', JStr ''SQL''])) ''in''
       (JObj [(''values'', JArr [])]) = Inr False
   \<and> applyMultiSelectFilter rt_utc (Data (JArr [JStr ''React'', JStr ''SQL''])) ''notIn''
       (JObj [(''values'', JArr [])]) = Inr False"
  by (simp add: applyMultiSelectFilter_def GetV_own)

section \<open>The date family: claim C3\<close>




lemma clock_set_back_at_midnight_excludes_end_day:
  "applyDateFilter rt_midnight_set_back (Data (JNum (Fin 1686871800000))) ''between''
     (JObj [(''startDate'', JStr ''2023-06-15''), (''endDate'', JStr ''2023-06-15'')]) = Inr False
   \<and> Date_new rt_midnight_set_back (Data (JStr ''2023-06-15'')) = Inr (Some 1686787200000)
   \<and> Day (LocalTime rt_midnight_set_back 1686787200000) = 19523
   \<and> Day (LocalTime rt_midnight_set_back 1686871800000) = 19523"
  by code_simp

lemma utc_minus_5_same_day:
  "applyDateFilter rt_utc_minus_5 (Data (JStr ''2023-06-15'')) ''between''
     (JObj [(''startDate'', JStr ''2023-06-15''), (''endDate'', JStr ''2023-06-15'')]) = Inr True"
  by code_simp

section \<open>Validation: claims C8 and C10\<close>

text \<open>
  Claim C8. A date condition, whose payload holds the two date strings, validates iff
  both strings parse to valid dates and the start is not after the end. In particular
  the range from 2024-05-01 to 2024-01-01 is invalid, which is the witness.
\<close>

theorem date_condition_valid_iff:
  assumes "fieldType c = ''date''"
    and "value_c c = JObj kvs"
    and "map_of kvs ''startDate'' = Some (JStr s)"
    and "map_of kvs ''endDate'' = Some (JStr e)"
  shows "isValidFilterCondition rt c =
     (\<exists>a b. TimeClip (DateParse rt s) = Some a \<and> TimeClip (DateParse rt e) = Some b \<and> a \<le> b)"
proof -
  have g: "GetV rt (Data (value_c c)) ''startDate'' = Inr (Data (JStr s))"
      "GetV rt (Data (value_c c)) ''endDate'' = Inr (Data (JStr e))"
    using assms(2-4) by (simp_all add: GetV_own)
  have d: "Date_new rt (Data (JStr x)) = Inr (TimeClip (DateParse rt x))" for x
    by (simp add: Date_new_def)
  have "isValid_body rt c =
      Inr (TimeClip (DateParse rt s) \<noteq> None \<and> TimeClip (DateParse rt e) \<noteq> None
           \<and> date_le (TimeClip (DateParse rt s)) (TimeClip (DateParse rt e)))"
    using assms(1) by (simp add: isValid_body_def Let_def g d)
  then show ?thesis
    by (auto simp: isValidFilterCondition_def date_le_def)
qed

theorem date_condition_valid_iff_witness:
  "\<not> isValidFilterCondition rt_utc joined_inverted_range"
proof -
  have p: "TimeClip (DateParse rt_utc ''2024-05-01'') = Some 1714521600000"
      "TimeClip (DateParse rt_utc ''2024-01-01'') = Some 1704067200000"
    by code_simp+
  show ?thesis
    using date_condition_valid_iff
      [of joined_inverted_range
          "[(''startDate'', JStr ''2024-05-01''), (''endDate'', JStr ''2024-01-01'')]"
          "''2024-05-01''" "''2024-01-01''" rt_utc]
    by (simp add: joined_inverted_range_def p)
qed

text \<open>
  Claim C10. The validator reads only the field type and the payload of a condition:
  two conditions with the same field type and payload get the same verdict, whatever
  their operators, field keys and ids. So a condition with a well-formed payload
  validates even when its operator is not one its field type allows.
\<close>

theorem isValidFilterCondition_ignores_operator_field_id:
  assumes "fieldType c1 = fieldType c2" and "value_c c1 = value_c c2"
  shows "isValidFilterCondition rt c1 = isValidFilterCondition rt c2"
  using assms by (simp add: isValidFilterCondition_def isValid_body_def Let_def)

theorem isValidFilterCondition_ignores_operator_field_id_witness:
  "isValidFilterCondition rt_utc role_between_engineer"
proof -
  have "fieldType role_contains_engineer = fieldType role_between_engineer"
    and "value_c role_contains_engineer = value_c role_between_engineer"
    by (simp_all add: role_contains_engineer_def role_between_engineer_def)
  then have "isValidFilterCondition rt_utc role_contains_engineer =
      isValidFilterCondition rt_utc role_between_engineer"
    by (rule isValidFilterCondition_ignores_operator_field_id)
  moreover have "isValidFilterCondition rt_utc role_contains_engineer"
    by code_simp
  ultimately show ?thesis
    by simp
qed

end
